theory Spec2Isabelle
  imports Main
begin

section \<open>Strings and exceptions of the source language\<close>

text \<open>
  A Python \<open>str\<close> is a sequence of code points and \<open>len\<close> counts code points.
  It is modelled as a \<open>string\<close> in which every \<open>char\<close> stands for one code point
  of the range 0..255 (Latin-1).
\<close>

definition is_decimal_digit :: "char \<Rightarrow> bool" where
  \<comment> \<open>the ten characters 0..9\<close>
  "is_decimal_digit c \<longleftrightarrow> 48 \<le> (of_char c :: nat) \<and> (of_char c :: nat) \<le> 57"

definition isdigit_char :: "char \<Rightarrow> bool" where
  \<comment> \<open>The characters for which \<open>str.isdigit\<close> holds: those whose Unicode property
      Numeric_Type is Decimal or Digit. Below code point 256 these are 0..9 and the
      superscripts U+00B2, U+00B3 and U+00B9.\<close>
  "isdigit_char c \<longleftrightarrow>
     is_decimal_digit c \<or> (of_char c :: nat) = 178 \<or> (of_char c :: nat) = 179
       \<or> (of_char c :: nat) = 185"

definition isdigit :: "string \<Rightarrow> bool" where
  \<comment> \<open>\<open>str.isdigit()\<close>: all characters are digits and there is at least one\<close>
  "isdigit s \<longleftrightarrow> s \<noteq> [] \<and> list_all isdigit_char s"

datatype exn =
    ValueError string
  | KeyError
  | IndexError
  | AttributeError string

section \<open>Fields\<close>

text \<open>
  \<open>Field\<close> wraps a value and renders it with \<open>str\<close>. \<open>Name\<close> adds nothing, so a
  name is the wrapped string itself. \<open>Phone\<close> keeps its value in a private attribute
  that is written only by the validating setter; that attribute is \<open>None\<close> only inside
  the constructor, before the setter runs, so a constructed phone always holds a string.
\<close>

datatype Phone = Phone (phone_value: string)

definition phone_ok :: "string \<Rightarrow> bool" where
  \<comment> \<open>the test of the setter: \<open>len(value) == 10 and value.isdigit()\<close>\<close>
  "phone_ok v \<longleftrightarrow> length v = 10 \<and> isdigit v"

definition Phone_set_value :: "string \<Rightarrow> Phone \<Rightarrow> (exn + unit) \<times> Phone" where
  \<comment> \<open>the property setter; the phone is returned as it is after the call\<close>
  "Phone_set_value v p =
     (if phone_ok v then (Inr (), Phone v)
      else (Inl (ValueError ''Invalid phone format''), p))"

definition Phone_init :: "string \<Rightarrow> exn + Phone" where
  \<comment> \<open>\<open>Phone(value)\<close>: the constructor runs the setter on the fresh object\<close>
  "Phone_init v =
     (if phone_ok v then Inr (Phone v) else Inl (ValueError ''Invalid phone format''))"

definition str_Phone :: "Phone \<Rightarrow> string" where
  "str_Phone p = phone_value p"


section \<open>Calendar dates\<close>

text \<open>
  The class \<open>datetime.date\<close> of the standard library: a proleptic Gregorian date with
  \<open>1 \<le> year \<le> 9999\<close>. Its constructor and \<open>replace\<close> raise \<open>ValueError\<close> on a
  combination of fields that is not a date; subtraction yields the difference of the
  ordinals; comparison is that of the triples (year, month, day).
\<close>

record date =
  year :: int
  month :: int
  day :: int

definition is_leap :: "int \<Rightarrow> bool" where
  "is_leap y \<longleftrightarrow> y mod 4 = 0 \<and> (y mod 100 \<noteq> 0 \<or> y mod 400 = 0)"

definition days_in_month :: "int \<Rightarrow> int \<Rightarrow> int" where
  "days_in_month y m =
     (if m = 2 then (if is_leap y then 29 else 28)
      else if m = 4 \<or> m = 6 \<or> m = 9 \<or> m = 11 then 30 else 31)"

definition days_before_year :: "int \<Rightarrow> int" where
  "days_before_year y = (y - 1) * 365 + (y - 1) div 4 - (y - 1) div 100 + (y - 1) div 400"

definition days_before_month :: "int \<Rightarrow> int \<Rightarrow> int" where
  "days_before_month y m = sum_list (map (days_in_month y) [1..m - 1])"

definition toordinal :: "date \<Rightarrow> int" where
  "toordinal d = days_before_year (year d) + days_before_month (year d) (month d) + day d"

definition valid_date :: "date \<Rightarrow> bool" where
  "valid_date d \<longleftrightarrow>
     1 \<le> year d \<and> year d \<le> 9999 \<and> 1 \<le> month d \<and> month d \<le> 12 \<and>
     1 \<le> day d \<and> day d \<le> days_in_month (year d) (month d)"

definition date_less :: "date \<Rightarrow> date \<Rightarrow> bool" where
  "date_less a b \<longleftrightarrow>
     year a < year b \<or> (year a = year b \<and>
       (month a < month b \<or> (month a = month b \<and> day a < day b)))"

definition days_between :: "date \<Rightarrow> date \<Rightarrow> int" where
  \<comment> \<open>\<open>(a - b).days\<close>\<close>
  "days_between a b = toordinal a - toordinal b"

fun str_nat :: "nat \<Rightarrow> string" where
  "str_nat n =
     (if n < 10 then [char_of (48 + n)]
      else str_nat (n div 10) @ [char_of (48 + n mod 10)])"

declare str_nat.simps [simp del]

definition str_int :: "int \<Rightarrow> string" where
  "str_int i = (if i < 0 then CHR ''-'' # str_nat (nat (- i)) else str_nat (nat i))"

definition date_replace_year :: "date \<Rightarrow> int \<Rightarrow> exn + date" where
  \<comment> \<open>\<open>d.replace(year=y)\<close>: the fields are checked again, the year first\<close>
  "date_replace_year d y =
     (if y < 1 \<or> 9999 < y then Inl (ValueError (''year '' @ str_int y @ '' is out of range''))
      else if day d < 1 \<or> days_in_month y (month d) < day d
        then Inl (ValueError ''day is out of range for month'')
      else Inr (d\<lparr>year := y\<rparr>))"

definition zfill :: "nat \<Rightarrow> string \<Rightarrow> string" where
  "zfill w s = replicate (w - length s) CHR ''0'' @ s"

definition strftime_Ymd :: "date \<Rightarrow> string" where
  \<comment> \<open>\<open>d.strftime("%Y.%m.%d")\<close>: the year on four digits, month and day on two\<close>
  "strftime_Ymd d =
     zfill 4 (str_int (year d)) @ ''.'' @ zfill 2 (str_int (month d)) @ ''.''
       @ zfill 2 (str_int (day d))"

subsection \<open>Parsing a date\<close>

text \<open>
  \<open>datetime.strptime(value, "%d.%m.%Y")\<close> turns the format into a regular expression,
  takes its first match at the start of the string (alternatives tried from left to
  right, with backtracking), refuses a match that leaves characters over, and builds the
  date from the three numbers. The directives stand for
  \<^item> \<open>%d\<close>: \<open>3[0-1] | [1-2]\d | 0[1-9] | [1-9] | space [1-9]\<close>;
  \<^item> \<open>%m\<close>: \<open>1[0-2] | 0[1-9] | [1-9]\<close>;
  \<^item> \<open>%Y\<close>: \<open>\d\d\d\d\<close>.
  Each function below lists the ways its directive matches a prefix, in that order, as
  the value read and the rest of the string. Every failure of \<open>strptime\<close> is a
  \<open>ValueError\<close> whose message the caller drops, so it is \<open>None\<close> here.
\<close>

definition digit_val :: "char \<Rightarrow> int" where
  "digit_val c = int (of_char c) - 48"

definition is_digit_1_9 :: "char \<Rightarrow> bool" where
  "is_digit_1_9 c \<longleftrightarrow> is_decimal_digit c \<and> c \<noteq> CHR ''0''"

definition re_d :: "string \<Rightarrow> (int \<times> string) list" where
  "re_d s =
     (case s of
        a # b # r \<Rightarrow>
          (if a = CHR ''3'' \<and> (b = CHR ''0'' \<or> b = CHR ''1'') then [(30 + digit_val b, r)] else [])
          @ (if (a = CHR ''1'' \<or> a = CHR ''2'') \<and> is_decimal_digit b
             then [(10 * digit_val a + digit_val b, r)] else [])
          @ (if a = CHR ''0'' \<and> is_digit_1_9 b then [(digit_val b, r)] else [])
      | _ \<Rightarrow> [])
     @ (case s of a # r \<Rightarrow> (if is_digit_1_9 a then [(digit_val a, r)] else []) | [] \<Rightarrow> [])
     @ (case s of
          a # b # r \<Rightarrow> (if a = CHR '' '' \<and> is_digit_1_9 b then [(digit_val b, r)] else [])
        | _ \<Rightarrow> [])"

definition re_m :: "string \<Rightarrow> (int \<times> string) list" where
  "re_m s =
     (case s of
        a # b # r \<Rightarrow>
          (if a = CHR ''1'' \<and> (b = CHR ''0'' \<or> b = CHR ''1'' \<or> b = CHR ''2'')
           then [(10 + digit_val b, r)] else [])
          @ (if a = CHR ''0'' \<and> is_digit_1_9 b then [(digit_val b, r)] else [])
      | _ \<Rightarrow> [])
     @ (case s of a # r \<Rightarrow> (if is_digit_1_9 a then [(digit_val a, r)] else []) | [] \<Rightarrow> [])"

definition re_Y :: "string \<Rightarrow> (int \<times> string) list" where
  "re_Y s =
     (case s of
        a # b # c # e # r \<Rightarrow>
          (if is_decimal_digit a \<and> is_decimal_digit b \<and> is_decimal_digit c \<and> is_decimal_digit e
           then [(1000 * digit_val a + 100 * digit_val b + 10 * digit_val c + digit_val e, r)]
           else [])
      | _ \<Rightarrow> [])"

definition re_dot :: "string \<Rightarrow> string list" where
  "re_dot s = (case s of a # r \<Rightarrow> (if a = CHR ''.'' then [r] else []) | [] \<Rightarrow> [])"

definition re_dmY :: "string \<Rightarrow> (int \<times> int \<times> int \<times> string) list" where
  \<comment> \<open>all matches of the whole pattern, the one the matcher finds first at the head\<close>
  "re_dmY s =
     concat (map (\<lambda>(d, r1). concat (map (\<lambda>r2. concat (map (\<lambda>(m, r3).
       concat (map (\<lambda>r4. map (\<lambda>(y, r5). (d, m, y, r5)) (re_Y r4)) (re_dot r3)))
         (re_m r2))) (re_dot r1))) (re_d s))"

definition strptime_dmY :: "string \<Rightarrow> date option" where
  "strptime_dmY s =
     (case re_dmY s of
        [] \<Rightarrow> None
      | (d, m, y, rest) # _ \<Rightarrow>
          (if rest \<noteq> [] then None
           else if valid_date \<lparr>year = y, month = m, day = d\<rparr>
             then Some \<lparr>year = y, month = m, day = d\<rparr>
           else None))"

record Birthday =
  birthday_value :: string
  birthday_date :: date

definition Birthday_init :: "string \<Rightarrow> exn + Birthday" where
  "Birthday_init v =
     (case strptime_dmY v of
        None \<Rightarrow> Inl (ValueError ''Invalid date format. Use DD.MM.YYYY'')
      | Some d \<Rightarrow> Inr \<lparr>birthday_value = v, birthday_date = d\<rparr>)"

definition str_Birthday :: "Birthday \<Rightarrow> string" where
  "str_Birthday b = birthday_value b"

section \<open>Records\<close>

record Record =
  name :: string
  phones :: "Phone list"
  birthday :: "Birthday option"

definition Record_init :: "string \<Rightarrow> Record" where
  "Record_init n = \<lparr>name = n, phones = [], birthday = None\<rparr>"

text \<open>
  The methods of a record change it in place. Each one returns what the call gave
  (\<open>Inl\<close> the exception raised) together with the record as it is after the call.
\<close>

definition add_phone :: "string \<Rightarrow> Record \<Rightarrow> (exn + unit) \<times> Record" where
  "add_phone phone_number r =
     (case Phone_init phone_number of
        Inl e \<Rightarrow> (Inl e, r)
      | Inr p \<Rightarrow> (Inr (), r\<lparr>phones := phones r @ [p]\<rparr>))"

definition remove_phone :: "string \<Rightarrow> Record \<Rightarrow> Record" where
  "remove_phone phone_number r =
     r\<lparr>phones := filter (\<lambda>p. str_Phone p \<noteq> phone_number) (phones r)\<rparr>"

fun edit_phone_loop :: "string \<Rightarrow> string \<Rightarrow> Phone list \<Rightarrow> (exn + unit) \<times> Phone list" where
  "edit_phone_loop old_number new_number [] = (Inl (ValueError ''Phone number not found''), [])"
| "edit_phone_loop old_number new_number (p # ps) =
     (if str_Phone p = old_number
      then (case Phone_set_value new_number p of (res, p') \<Rightarrow> (res, p' # ps))
      else (case edit_phone_loop old_number new_number ps of (res, ps') \<Rightarrow> (res, p # ps')))"

definition edit_phone :: "string \<Rightarrow> string \<Rightarrow> Record \<Rightarrow> (exn + unit) \<times> Record" where
  "edit_phone old_number new_number r =
     (case edit_phone_loop old_number new_number (phones r) of
        (res, ps') \<Rightarrow> (res, r\<lparr>phones := ps'\<rparr>))"

definition add_birthday :: "string \<Rightarrow> Record \<Rightarrow> (exn + unit) \<times> Record" where
  "add_birthday v r =
     (case Birthday_init v of
        Inl e \<Rightarrow> (Inl e, r)
      | Inr b \<Rightarrow> (Inr (), r\<lparr>birthday := Some b\<rparr>))"

fun join :: "string \<Rightarrow> string list \<Rightarrow> string" where
  "join sep [] = []"
| "join sep [x] = x"
| "join sep (x # y # ys) = x @ sep @ join sep (y # ys)"

definition str_Record :: "Record \<Rightarrow> string" where
  "str_Record r =
     ''Contact name: '' @ name r @ '', phones: '' @ join ''; '' (map phone_value (phones r))"

section \<open>The address book\<close>

text \<open>
  The book is a dictionary from names to records. A Python dictionary iterates in
  insertion order, and the birthday listing depends on that order, so the book is the
  list of its items in that order. Assigning to a key that is present replaces the value
  where it stands; a new key goes to the end.
\<close>

type_synonym AddressBook = "(string \<times> Record) list"

fun dict_setitem :: "'k \<Rightarrow> 'v \<Rightarrow> ('k \<times> 'v) list \<Rightarrow> ('k \<times> 'v) list" where
  "dict_setitem k v [] = [(k, v)]"
| "dict_setitem k v (kv # kvs) =
     (if fst kv = k then (fst kv, v) # kvs else kv # dict_setitem k v kvs)"

definition dict_delitem :: "'k \<Rightarrow> ('k \<times> 'v) list \<Rightarrow> ('k \<times> 'v) list" where
  "dict_delitem k kvs = filter (\<lambda>kv. fst kv \<noteq> k) kvs"

definition add_record :: "Record \<Rightarrow> AddressBook \<Rightarrow> AddressBook" where
  "add_record r book = dict_setitem (name r) r book"

definition find :: "string \<Rightarrow> AddressBook \<Rightarrow> Record option" where
  "find n book = map_of book n"

definition delete :: "string \<Rightarrow> AddressBook \<Rightarrow> AddressBook" where
  "delete n book = (if n \<in> fst ` set book then dict_delitem n book else book)"

record congratulation =
  congratulation_name :: string
  congratulation_date :: string

fun upcoming_loop ::
  "int \<Rightarrow> date \<Rightarrow> Record list \<Rightarrow> congratulation list \<Rightarrow> exn + congratulation list" where
  "upcoming_loop days today [] upcoming_birthdays = Inr upcoming_birthdays"
| "upcoming_loop days today (user # users) upcoming_birthdays =
     (case birthday user of
        None \<Rightarrow> upcoming_loop days today users upcoming_birthdays
      | Some b \<Rightarrow>
          (case date_replace_year (birthday_date b) (year today) of
             Inl e \<Rightarrow> Inl e
           | Inr birthday_this_year \<Rightarrow>
               (case (if date_less birthday_this_year today
                      then date_replace_year birthday_this_year (year today + 1)
                      else Inr birthday_this_year) of
                  Inl e \<Rightarrow> Inl e
                | Inr birthday_this_year' \<Rightarrow>
                    (if 0 \<le> days_between birthday_this_year' today
                        \<and> days_between birthday_this_year' today \<le> days
                     then upcoming_loop days today users
                       (upcoming_birthdays @
                         [\<lparr>congratulation_name = name user,
                           congratulation_date = strftime_Ymd birthday_this_year'\<rparr>])
                     else upcoming_loop days today users upcoming_birthdays))))"

definition get_upcoming_birthdays ::
  "int \<Rightarrow> date \<Rightarrow> AddressBook \<Rightarrow> exn + congratulation list" where
  \<comment> \<open>the second argument is the value of \<open>datetime.today().date()\<close> at the call\<close>
  "get_upcoming_birthdays days today book = upcoming_loop days today (map snd book) []"

section \<open>Command operations\<close>

text \<open>
  A command takes the argument list and the book. It changes the book in place and
  either shows a message through the user interface and returns nothing (\<open>Inr\<close> the
  message shown) or raises (\<open>Inl\<close>); the book is returned as it is when the command
  ends. A record taken from the book is the object stored there, so a change to it is a
  change of the book's entry.
\<close>

definition not_enough_values :: "string \<Rightarrow> nat \<Rightarrow> exn" where
  "not_enough_values expected got =
     ValueError (''not enough values to unpack (expected '' @ expected @ '', got ''
       @ str_nat got @ '')'')"

definition add_contact_body :: "string list \<Rightarrow> AddressBook \<Rightarrow> (exn + string) \<times> AddressBook" where
  "add_contact_body args book =
     (case args of
        n # phone # _ \<Rightarrow>
          (let (record, book1, message) =
                 (case find n book of
                    None \<Rightarrow> (Record_init n, add_record (Record_init n) book, ''Contact added.'')
                  | Some r \<Rightarrow> (r, book, ''Contact updated.''))
           in if phone \<noteq> []
              then (case add_phone phone record of
                      (Inl e, record') \<Rightarrow> (Inl e, dict_setitem n record' book1)
                    | (Inr _, record') \<Rightarrow> (Inr message, dict_setitem n record' book1))
              else (Inr message, book1))
      | _ \<Rightarrow> (Inl (not_enough_values ''at least 2'' (length args)), book))"

definition change_contact_body :: "string list \<Rightarrow> AddressBook \<Rightarrow> (exn + string) \<times> AddressBook" where
  "change_contact_body args book =
     (case args of
        n # old_phone # new_phone # _ \<Rightarrow>
          (case find n book of
             Some record \<Rightarrow>
               (case edit_phone old_phone new_phone record of
                  (Inl e, record') \<Rightarrow> (Inl e, dict_setitem n record' book)
                | (Inr _, record') \<Rightarrow> (Inr ''Contact updated.'', dict_setitem n record' book))
           | None \<Rightarrow> (Inl KeyError, book))
      | _ \<Rightarrow> (Inl (not_enough_values ''at least 3'' (length args)), book))"

definition show_phone_body :: "string list \<Rightarrow> AddressBook \<Rightarrow> (exn + string) \<times> AddressBook" where
  "show_phone_body args book =
     (case args of
        [] \<Rightarrow> (Inl (not_enough_values ''1'' 0), book)
      | [n] \<Rightarrow>
          (case find n book of
             Some record \<Rightarrow> (Inr (join ''; '' (map str_Phone (phones record))), book)
           | None \<Rightarrow> (Inl KeyError, book))
      | _ \<Rightarrow> (Inl (ValueError ''too many values to unpack (expected 1)''), book))"

definition add_birthday_body :: "string list \<Rightarrow> AddressBook \<Rightarrow> (exn + string) \<times> AddressBook" where
  "add_birthday_body args book =
     (case args of
        n # b # _ \<Rightarrow>
          (case find n book of
             Some record \<Rightarrow>
               (case add_birthday b record of
                  (Inl e, record') \<Rightarrow> (Inl e, dict_setitem n record' book)
                | (Inr _, record') \<Rightarrow> (Inr ''Birthday added.'', dict_setitem n record' book))
           | None \<Rightarrow> (Inl KeyError, book))
      | _ \<Rightarrow> (Inl IndexError, book))"

definition NoneType_has_no_birthday :: string where
  \<comment> \<open>the message of the \<open>AttributeError\<close> for \<open>None.birthday\<close>; \<open>CHR 0x27\<close> is the
      apostrophe\<close>
  "NoneType_has_no_birthday =
     CHR 0x27 # ''NoneType'' @ CHR 0x27 # '' object has no attribute '' @ CHR 0x27 # ''birthday''
       @ [CHR 0x27]"

definition show_birthday_body :: "string list \<Rightarrow> AddressBook \<Rightarrow> (exn + string) \<times> AddressBook" where
  "show_birthday_body args book =
     (case args of
        [] \<Rightarrow> (Inl (not_enough_values ''1'' 0), book)
      | [n] \<Rightarrow>
          (case find n book of
             None \<Rightarrow> (Inl (AttributeError NoneType_has_no_birthday), book)
           | Some record \<Rightarrow>
               (Inr (case birthday record of None \<Rightarrow> ''None'' | Some b \<Rightarrow> str_Birthday b), book))
      | _ \<Rightarrow> (Inl (ValueError ''too many values to unpack (expected 1)''), book))"

text \<open>
  The decorator \<open>input_error\<close> gives what its caller sees: the message shown when the
  command ran to its end, the string or the exception object that the handler returned,
  or an exception that no handler takes and that leaves the decorated function.
\<close>

datatype reply =
    Displayed string
  | Returned string
  | Returned_exception exn
  | Raised exn

definition input_error ::
  "(string list \<Rightarrow> AddressBook \<Rightarrow> (exn + string) \<times> AddressBook)
     \<Rightarrow> string list \<Rightarrow> AddressBook \<Rightarrow> reply \<times> AddressBook" where
  "input_error func args book =
     (case func args book of
        (Inr shown, book') \<Rightarrow> (Displayed shown, book')
      | (Inl KeyError, book') \<Rightarrow> (Returned ''Name not found. Please, check and try again.'', book')
      | (Inl (ValueError m), book') \<Rightarrow> (Returned_exception (ValueError m), book')
      | (Inl IndexError, book') \<Rightarrow> (Returned ''Enter correct information.'', book')
      | (Inl (AttributeError m), book') \<Rightarrow> (Raised (AttributeError m), book'))"

definition add_contact :: "string list \<Rightarrow> AddressBook \<Rightarrow> reply \<times> AddressBook" where
  "add_contact = input_error add_contact_body"

definition change_contact :: "string list \<Rightarrow> AddressBook \<Rightarrow> reply \<times> AddressBook" where
  "change_contact = input_error change_contact_body"

definition show_phone :: "string list \<Rightarrow> AddressBook \<Rightarrow> reply \<times> AddressBook" where
  "show_phone = input_error show_phone_body"

definition add_birthday_command :: "string list \<Rightarrow> AddressBook \<Rightarrow> reply \<times> AddressBook" where
  \<comment> \<open>the function \<open>add_birthday\<close> of the module, as distinct from the method of \<open>Record\<close>\<close>
  "add_birthday_command = input_error add_birthday_body"

definition show_birthday :: "string list \<Rightarrow> AddressBook \<Rightarrow> reply \<times> AddressBook" where
  "show_birthday = input_error show_birthday_body"

section \<open>Properties stated by the specification\<close>

definition book_inv :: "AddressBook \<Rightarrow> bool" where
  \<comment> \<open>the keys are unique and every key is the name of its record\<close>
  "book_inv book \<longleftrightarrow> distinct (map fst book) \<and> (\<forall>kv\<in>set book. fst kv = name (snd kv))"

definition occurrence :: "date \<Rightarrow> date \<Rightarrow> date" where
  \<comment> \<open>the birthday's month and day in the current year, or in the next year when that
      day is strictly before today\<close>
  "occurrence today b =
     (if date_less (b\<lparr>year := year today\<rparr>) today then b\<lparr>year := year today + 1\<rparr>
      else b\<lparr>year := year today\<rparr>)"

definition anchorable :: "date \<Rightarrow> date \<Rightarrow> bool" where
  \<comment> \<open>the birthday's month and day exist in the current year and in the year of the
      occurrence\<close>
  "anchorable today b \<longleftrightarrow> valid_date (b\<lparr>year := year today\<rparr>) \<and> valid_date (occurrence today b)"

definition anchorable_book :: "date \<Rightarrow> AddressBook \<Rightarrow> bool" where
  "anchorable_book today book \<longleftrightarrow>
     list_all (\<lambda>kv. case birthday (snd kv) of None \<Rightarrow> True
                    | Some b \<Rightarrow> anchorable today (birthday_date b)) book"

definition in_window :: "int \<Rightarrow> date \<Rightarrow> date \<Rightarrow> bool" where
  "in_window days today occ \<longleftrightarrow>
     0 \<le> days_between occ today \<and> days_between occ today \<le> days"

definition upcoming_spec :: "int \<Rightarrow> date \<Rightarrow> AddressBook \<Rightarrow> congratulation list" where
  \<comment> \<open>the listing as the specification words it: in the order of the book, one entry for
      each record with a birthday whose occurrence is in the window\<close>
  "upcoming_spec days today book =
     concat (map (\<lambda>kv. case birthday (snd kv) of
                          None \<Rightarrow> []
                        | Some b \<Rightarrow>
                            (if in_window days today (occurrence today (birthday_date b))
                             then [\<lparr>congratulation_name = name (snd kv),
                                    congratulation_date =
                                      strftime_Ymd (occurrence today (birthday_date b))\<rparr>]
                             else [])) book)"

definition upcoming_record :: "int \<Rightarrow> date \<Rightarrow> Record \<Rightarrow> bool" where
  \<comment> \<open>the record has a birthday and its occurrence is in the window\<close>
  "upcoming_record days today r \<longleftrightarrow>
     (case birthday r of None \<Rightarrow> False
      | Some b \<Rightarrow> in_window days today (occurrence today (birthday_date b)))"

definition dotted_date :: "string \<Rightarrow> bool" where
  \<comment> \<open>ten characters, of which the fifth and the eighth are dots\<close>
  "dotted_date s \<longleftrightarrow> length s = 10 \<and> s ! 4 = CHR ''.'' \<and> s ! 7 = CHR ''.''"

section \<open>Phone validation\<close>

lemma isdigit_iff: "isdigit s \<longleftrightarrow> s \<noteq> [] \<and> (\<forall>c\<in>set s. isdigit_char c)"
  by (simp add: isdigit_def list_all_iff)

lemma decimal_digit_isdigit: "is_decimal_digit c \<Longrightarrow> isdigit_char c"
  by (simp add: isdigit_char_def)

text \<open>
  Claim C7, as the code has it. Constructing a phone fails with the error
  \<open>Invalid phone format\<close> exactly when the string does not have ten characters or holds a
  character that \<open>str.isdigit\<close> refuses. Every string of ten digit characters, and so
  every string of the ten decimal digits 0..9, is accepted and rendered back unchanged.
\<close>

theorem Phone_init_accepts_isdigit:
  "(Phone_init s = Inl (ValueError ''Invalid phone format'')
      \<longleftrightarrow> length s \<noteq> 10 \<or> (\<exists>c\<in>set s. \<not> isdigit_char c))
   \<and> (length s = 10 \<and> (\<forall>c\<in>set s. isdigit_char c)
        \<longrightarrow> Phone_init s = Inr (Phone s) \<and> str_Phone (Phone s) = s)
   \<and> (length s = 10 \<and> (\<forall>c\<in>set s. is_decimal_digit c)
        \<longrightarrow> Phone_init s = Inr (Phone s) \<and> str_Phone (Phone s) = s)"
  by (auto simp: Phone_init_def phone_ok_def isdigit_iff str_Phone_def decimal_digit_isdigit)

theorem Phone_init_accepts_isdigit_witness:
  "length ''1234567890'' = 10 \<and> list_all is_decimal_digit ''1234567890''
   \<and> Phone_init ''1234567890'' = Inr (Phone ''1234567890'')
   \<and> str_Phone (Phone ''1234567890'') = ''1234567890''
   \<and> Phone_init ''12345'' = Inl (ValueError ''Invalid phone format'')"
  using Phone_init_accepts_isdigit [of "''1234567890''"] Phone_init_accepts_isdigit [of "''12345''"]
  by (simp add: is_decimal_digit_def)

text \<open>
  Claim C7 as stated fails: ten times the superscript two (U+00B2) is a string of length
  ten whose characters are not decimal digits, and it is accepted as a phone.
\<close>

theorem Phone_init_superscript_counterexample:
  "length (replicate 10 (CHR 0xB2)) = 10
   \<and> CHR 0xB2 \<in> set (replicate 10 (CHR 0xB2))
   \<and> \<not> is_decimal_digit (CHR 0xB2)
   \<and> Phone_init (replicate 10 (CHR 0xB2)) = Inr (Phone (replicate 10 (CHR 0xB2)))"
  by (simp add: Phone_init_def phone_ok_def isdigit_iff isdigit_char_def is_decimal_digit_def)

section \<open>Editing a phone\<close>

lemma edit_phone_loop_not_found:
  "\<forall>p\<in>set ps. str_Phone p \<noteq> old \<Longrightarrow>
     edit_phone_loop old new ps = (Inl (ValueError ''Phone number not found''), ps)"
  by (induction ps) auto

lemma edit_phone_loop_invalid:
  "\<exists>p\<in>set ps. str_Phone p = old \<Longrightarrow> \<not> phone_ok new \<Longrightarrow>
     edit_phone_loop old new ps = (Inl (ValueError ''Invalid phone format''), ps)"
proof (induction ps)
  case Nil
  then show ?case by simp
next
  case (Cons p ps)
  show ?case
  proof (cases "str_Phone p = old")
    case True
    with Cons.prems(2) show ?thesis by (simp add: Phone_set_value_def)
  next
    case False
    with Cons.prems have "\<exists>q\<in>set ps. str_Phone q = old" by auto
    from Cons.IH [OF this Cons.prems(2)] False show ?thesis by simp
  qed
qed

lemma edit_phone_loop_replaces_first:
  "\<exists>p\<in>set ps. str_Phone p = old \<Longrightarrow> phone_ok new \<Longrightarrow>
     \<exists>i<length ps. str_Phone (ps ! i) = old \<and> (\<forall>j<i. str_Phone (ps ! j) \<noteq> old)
        \<and> edit_phone_loop old new ps = (Inr (), ps[i := Phone new])"
proof (induction ps)
  case Nil
  then show ?case by simp
next
  case (Cons p ps)
  show ?case
  proof (cases "str_Phone p = old")
    case True
    with Cons.prems have "edit_phone_loop old new (p # ps) = (Inr (), (p # ps)[0 := Phone new])"
      by (simp add: Phone_set_value_def)
    with True show ?thesis by (intro exI [of _ 0]) simp
  next
    case False
    with Cons.prems have "\<exists>q\<in>set ps. str_Phone q = old" by auto
    from Cons.IH [OF this Cons.prems(2)] obtain i where i: "i < length ps"
      "str_Phone (ps ! i) = old" "\<forall>j<i. str_Phone (ps ! j) \<noteq> old"
      "edit_phone_loop old new ps = (Inr (), ps[i := Phone new])" by blast
    have "\<forall>j<Suc i. str_Phone ((p # ps) ! j) \<noteq> old"
      using False i(3) by (auto simp: nth_Cons split: nat.splits)
    with i False show ?thesis by (intro exI [of _ "Suc i"]) simp
  qed
qed

lemma single_match_replaced:
  "i < length ps \<Longrightarrow> str_Phone (ps ! i) = old \<Longrightarrow> old \<noteq> new \<Longrightarrow>
   count_list (map str_Phone ps) old = 1 \<Longrightarrow>
     old \<notin> str_Phone ` set (ps[i := Phone new])"
proof (induction ps arbitrary: i)
  case Nil
  then show ?case by simp
next
  case (Cons p ps)
  show ?case
  proof (cases i)
    case 0
    with Cons.prems have "count_list (map str_Phone ps) old = 0" by simp
    then have "old \<notin> set (map str_Phone ps)"
      using count_list_0_iff [of "map str_Phone ps" old] by blast
    with 0 Cons.prems(3) show ?thesis by (auto simp: str_Phone_def)
  next
    case (Suc k)
    with Cons.prems have k: "k < length ps" "str_Phone (ps ! k) = old" by simp_all
    then have "old \<in> set (map str_Phone ps)" by (metis length_map nth_map nth_mem)
    then have "count_list (map str_Phone ps) old \<noteq> 0"
      using count_list_0_iff [of "map str_Phone ps" old] by blast
    with Cons.prems(4) have "str_Phone p \<noteq> old" "count_list (map str_Phone ps) old = 1"
      by (auto split: if_splits)
    with Cons.IH [OF k Cons.prems(3)] Suc show ?thesis by auto
  qed
qed

text \<open>
  Claim C6, as the code has it. \<open>edit_phone(old, new)\<close> fails with the error
  \<open>Phone number not found\<close> when no phone of the record renders as \<open>old\<close>, and with
  \<open>Invalid phone format\<close> when one does but \<open>new\<close> is refused; in both cases the
  record is left as it was. Otherwise it replaces the first phone that renders as
  \<open>old\<close>, at its place in the list, and \<open>new\<close> then matches a phone. \<open>old\<close> matches
  no phone afterwards when it differs from \<open>new\<close> and occurred once.
\<close>

theorem edit_phone_first_match:
  "((\<forall>p\<in>set (phones r). str_Phone p \<noteq> old) \<longrightarrow>
       edit_phone old new r = (Inl (ValueError ''Phone number not found''), r))
   \<and> ((\<exists>p\<in>set (phones r). str_Phone p = old) \<and> \<not> phone_ok new \<longrightarrow>
       edit_phone old new r = (Inl (ValueError ''Invalid phone format''), r))
   \<and> ((\<exists>p\<in>set (phones r). str_Phone p = old) \<and> phone_ok new \<longrightarrow>
       (\<exists>i<length (phones r).
          str_Phone (phones r ! i) = old \<and> (\<forall>j<i. str_Phone (phones r ! j) \<noteq> old)
          \<and> edit_phone old new r = (Inr (), r\<lparr>phones := (phones r)[i := Phone new]\<rparr>)
          \<and> new \<in> str_Phone ` set ((phones r)[i := Phone new])
          \<and> (old \<noteq> new \<and> count_list (map str_Phone (phones r)) old = 1 \<longrightarrow>
               old \<notin> str_Phone ` set ((phones r)[i := Phone new]))))"
proof (intro conjI impI)
  assume "\<forall>p\<in>set (phones r). str_Phone p \<noteq> old"
  then show "edit_phone old new r = (Inl (ValueError ''Phone number not found''), r)"
    by (simp add: edit_phone_def edit_phone_loop_not_found)
next
  assume "(\<exists>p\<in>set (phones r). str_Phone p = old) \<and> \<not> phone_ok new"
  then show "edit_phone old new r = (Inl (ValueError ''Invalid phone format''), r)"
    by (simp add: edit_phone_def edit_phone_loop_invalid)
next
  assume a: "(\<exists>p\<in>set (phones r). str_Phone p = old) \<and> phone_ok new"
  then obtain i where i: "i < length (phones r)" "str_Phone (phones r ! i) = old"
    "\<forall>j<i. str_Phone (phones r ! j) \<noteq> old"
    "edit_phone_loop old new (phones r) = (Inr (), (phones r)[i := Phone new])"
    using edit_phone_loop_replaces_first [of "phones r" old new] by blast
  have "Phone new \<in> set ((phones r)[i := Phone new])"
    using i(1) by (simp add: set_update_memI)
  then have "new \<in> str_Phone ` set ((phones r)[i := Phone new])"
    by (force simp: str_Phone_def)
  with i show "\<exists>i<length (phones r).
          str_Phone (phones r ! i) = old \<and> (\<forall>j<i. str_Phone (phones r ! j) \<noteq> old)
          \<and> edit_phone old new r = (Inr (), r\<lparr>phones := (phones r)[i := Phone new]\<rparr>)
          \<and> new \<in> str_Phone ` set ((phones r)[i := Phone new])
          \<and> (old \<noteq> new \<and> count_list (map str_Phone (phones r)) old = 1 \<longrightarrow>
               old \<notin> str_Phone ` set ((phones r)[i := Phone new]))"
    by (intro exI [of _ i]) (simp add: edit_phone_def single_match_replaced)
qed

theorem edit_phone_first_match_witness:
  "list_ex (\<lambda>p. str_Phone p = ''2222222222'')
      (phones \<lparr>name = ''Alice'', phones = [Phone ''1111111111'', Phone ''2222222222''], birthday = None\<rparr>)
   \<and> phone_ok ''3333333333''
   \<and> edit_phone ''2222222222'' ''3333333333''
        \<lparr>name = ''Alice'', phones = [Phone ''1111111111'', Phone ''2222222222''], birthday = None\<rparr>
      = (Inr (), \<lparr>name = ''Alice'', phones = [Phone ''1111111111'', Phone ''3333333333''], birthday = None\<rparr>)
   \<and> edit_phone ''4444444444'' ''3333333333''
        \<lparr>name = ''Alice'', phones = [Phone ''1111111111'', Phone ''2222222222''], birthday = None\<rparr>
      = (Inl (ValueError ''Phone number not found''),
          \<lparr>name = ''Alice'', phones = [Phone ''1111111111'', Phone ''2222222222''], birthday = None\<rparr>)
   \<and> edit_phone ''2222222222'' ''33''
        \<lparr>name = ''Alice'', phones = [Phone ''1111111111'', Phone ''2222222222''], birthday = None\<rparr>
      = (Inl (ValueError ''Invalid phone format''),
          \<lparr>name = ''Alice'', phones = [Phone ''1111111111'', Phone ''2222222222''], birthday = None\<rparr>)"
proof -
  let ?r = "\<lparr>name = ''Alice'', phones = [Phone ''1111111111'', Phone ''2222222222''], birthday = None\<rparr>"
  have ok: "phone_ok ''3333333333''"
    by (simp add: phone_ok_def isdigit_iff isdigit_char_def is_decimal_digit_def)
  have bad: "\<not> phone_ok ''33''" by (simp add: phone_ok_def)
  have m: "\<exists>p\<in>set (phones ?r). str_Phone p = ''2222222222''" by (simp add: str_Phone_def)
  have nm: "\<forall>p\<in>set (phones ?r). str_Phone p \<noteq> ''4444444444''" by (simp add: str_Phone_def)
  from edit_phone_first_match [of ?r "''2222222222''" "''3333333333''"] m ok
  obtain i where i: "i < length (phones ?r)" "str_Phone (phones ?r ! i) = ''2222222222''"
    "edit_phone ''2222222222'' ''3333333333'' ?r = (Inr (), ?r\<lparr>phones := (phones ?r)[i := Phone ''3333333333'']\<rparr>)"
    by blast
  from i(1,2) have "i = 1" by (cases i) (auto simp: str_Phone_def)
  with i(3) have 1: "edit_phone ''2222222222'' ''3333333333'' ?r
      = (Inr (), \<lparr>name = ''Alice'', phones = [Phone ''1111111111'', Phone ''3333333333''], birthday = None\<rparr>)"
    by simp
  have 2: "edit_phone ''4444444444'' ''3333333333'' ?r = (Inl (ValueError ''Phone number not found''), ?r)"
    using edit_phone_first_match [of ?r "''4444444444''" "''3333333333''"] nm by blast
  have 3: "edit_phone ''2222222222'' ''33'' ?r = (Inl (ValueError ''Invalid phone format''), ?r)"
    using edit_phone_first_match [of ?r "''2222222222''" "''33''"] m bad by blast
  show ?thesis using ok 1 2 3 by (simp add: str_Phone_def)
qed

text \<open>
  Claim C6 as stated fails on a record that holds the same number twice: the edit
  succeeds and the old number still matches the second phone.
\<close>

theorem edit_phone_duplicate_counterexample:
  "fst (edit_phone ''1111111111'' ''2222222222''
      \<lparr>name = ''Alice'', phones = [Phone ''1111111111'', Phone ''1111111111''], birthday = None\<rparr>)
     = Inr ()
   \<and> ''1111111111'' \<in> str_Phone ` set (phones (snd (edit_phone ''1111111111'' ''2222222222''
      \<lparr>name = ''Alice'', phones = [Phone ''1111111111'', Phone ''1111111111''], birthday = None\<rparr>)))"
  by (simp add: edit_phone_def Phone_set_value_def phone_ok_def isdigit_iff isdigit_char_def
      is_decimal_digit_def str_Phone_def)

section \<open>The dictionary\<close>

lemma dict_setitem_absent: "k \<notin> fst ` set kvs \<Longrightarrow> dict_setitem k v kvs = kvs @ [(k, v)]"
  by (induction kvs) auto

lemma dict_setitem_same: "map_of kvs k = Some v \<Longrightarrow> dict_setitem k v kvs = kvs"
  by (induction kvs) (auto split: if_splits)

lemma map_of_dict_setitem:
  "map_of (dict_setitem k v kvs) k' = (if k' = k then Some v else map_of kvs k')"
  by (induction kvs) auto

lemma keys_dict_setitem:
  "map fst (dict_setitem k v kvs) = (if k \<in> fst ` set kvs then map fst kvs else map fst kvs @ [k])"
  by (induction kvs) auto

lemma set_dict_setitem: "set (dict_setitem k v kvs) \<subseteq> insert (k, v) (set kvs)"
  by (induction kvs) auto

lemma find_None_iff: "find n book = None \<longleftrightarrow> n \<notin> fst ` set book"
  by (simp add: find_def map_of_eq_None_iff)

lemma book_inv_setitem:
  assumes "book_inv book" and "name r = n"
  shows "book_inv (dict_setitem n r book)"
proof -
  have "distinct (map fst (dict_setitem n r book))"
    using assms(1) by (auto simp: keys_dict_setitem book_inv_def)
  moreover have "\<forall>kv\<in>set (dict_setitem n r book). fst kv = name (snd kv)"
    using assms set_dict_setitem [of n r book] by (auto simp: book_inv_def)
  ultimately show ?thesis by (simp add: book_inv_def)
qed

lemma book_inv_find: "book_inv book \<Longrightarrow> find n book = Some r \<Longrightarrow> name r = n"
  by (auto simp: book_inv_def find_def dest!: map_of_SomeD)

lemma book_inv_delete: "book_inv book \<Longrightarrow> book_inv (delete n book)"
  by (auto simp: book_inv_def delete_def dict_delitem_def distinct_map_filter)

section \<open>Record methods keep the name\<close>

lemma add_phone_name: "add_phone v r = (res, r') \<Longrightarrow> name r' = name r"
  by (auto simp: add_phone_def split: sum.splits)

lemma edit_phone_name: "edit_phone old new r = (res, r') \<Longrightarrow> name r' = name r"
  by (auto simp: edit_phone_def split: prod.splits)

lemma add_birthday_name: "add_birthday v r = (res, r') \<Longrightarrow> name r' = name r"
  by (auto simp: add_birthday_def split: sum.splits)

lemma add_phone_failure: "add_phone v r = (Inl e, r') \<Longrightarrow> r' = r"
  by (auto simp: add_phone_def split: sum.splits)

lemma add_birthday_failure: "add_birthday v r = (Inl e, r') \<Longrightarrow> r' = r"
  by (auto simp: add_birthday_def split: sum.splits)

lemma edit_phone_loop_failure: "edit_phone_loop old new ps = (Inl e, ps') \<Longrightarrow> ps' = ps"
  by (induction ps arbitrary: ps')
     (auto simp: Phone_set_value_def split: if_splits prod.splits)

lemma edit_phone_failure: "edit_phone old new r = (Inl e, r') \<Longrightarrow> r' = r"
  by (auto simp: edit_phone_def split: prod.splits dest: edit_phone_loop_failure)

lemma snd_input_error: "snd (input_error f args book) = snd (f args book)"
  by (cases "f args book") (auto simp: input_error_def split: sum.splits exn.splits)

section \<open>Commands keep the invariant\<close>

lemma book_inv_add_record: "book_inv book \<Longrightarrow> book_inv (add_record r book)"
  by (simp add: add_record_def book_inv_setitem)

lemma book_inv_add_contact_body:
  assumes "book_inv book" shows "book_inv (snd (add_contact_body args book))"
proof (cases args)
  case Nil
  with assms show ?thesis by (simp add: add_contact_body_def)
next
  case (Cons n rest)
  show ?thesis
  proof (cases rest)
    case Nil
    with Cons assms show ?thesis by (simp add: add_contact_body_def)
  next
    case (Cons phone rest')
    note args = \<open>args = n # rest\<close> Cons
    show ?thesis
    proof (cases "find n book")
      case None
      have inv1: "book_inv (add_record (Record_init n) book)"
        using assms by (rule book_inv_add_record)
      obtain res r' where ap: "add_phone phone (Record_init n) = (res, r')"
        by (cases "add_phone phone (Record_init n)")
      then have "name r' = n" by (auto dest: add_phone_name simp: Record_init_def)
      with inv1 have "book_inv (dict_setitem n r' (add_record (Record_init n) book))"
        by (simp add: book_inv_setitem)
      with None inv1 ap args show ?thesis
        by (cases res) (simp_all add: add_contact_body_def)
    next
      case (Some r)
      obtain res r' where ap: "add_phone phone r = (res, r')"
        by (cases "add_phone phone r")
      with Some assms have "name r' = n" by (auto dest: add_phone_name book_inv_find)
      with assms have "book_inv (dict_setitem n r' book)" by (simp add: book_inv_setitem)
      with Some assms ap args show ?thesis
        by (cases res) (simp_all add: add_contact_body_def)
    qed
  qed
qed

lemma book_inv_change_contact_body:
  assumes "book_inv book" shows "book_inv (snd (change_contact_body args book))"
proof (cases "\<exists>n old_phone new_phone rest. args = n # old_phone # new_phone # rest")
  case False
  then have "snd (change_contact_body args book) = book"
    by (auto simp: change_contact_body_def split: list.splits)
  with assms show ?thesis by simp
next
  case True
  then obtain n old_phone new_phone rest where args: "args = n # old_phone # new_phone # rest"
    by blast
  show ?thesis
  proof (cases "find n book")
    case None
    with args assms show ?thesis by (simp add: change_contact_body_def)
  next
    case (Some r)
    obtain res r' where ep: "edit_phone old_phone new_phone r = (res, r')"
      by (cases "edit_phone old_phone new_phone r")
    with Some assms have "name r' = n" by (auto dest: edit_phone_name book_inv_find)
    with assms have "book_inv (dict_setitem n r' book)" by (simp add: book_inv_setitem)
    with Some ep args show ?thesis
      by (cases res) (simp_all add: change_contact_body_def)
  qed
qed

lemma book_inv_add_birthday_body:
  assumes "book_inv book" shows "book_inv (snd (add_birthday_body args book))"
proof (cases "\<exists>n b rest. args = n # b # rest")
  case False
  then have "snd (add_birthday_body args book) = book"
    by (auto simp: add_birthday_body_def split: list.splits)
  with assms show ?thesis by simp
next
  case True
  then obtain n b rest where args: "args = n # b # rest" by blast
  show ?thesis
  proof (cases "find n book")
    case None
    with args assms show ?thesis by (simp add: add_birthday_body_def)
  next
    case (Some r)
    obtain res r' where ab: "add_birthday b r = (res, r')"
      by (cases "add_birthday b r")
    with Some assms have "name r' = n" by (auto dest: add_birthday_name book_inv_find)
    with assms have "book_inv (dict_setitem n r' book)" by (simp add: book_inv_setitem)
    with Some ab args show ?thesis
      by (cases res) (simp_all add: add_birthday_body_def)
  qed
qed

lemma show_phone_body_book: "snd (show_phone_body args book) = book"
  by (auto simp: show_phone_body_def split: list.splits option.splits)

lemma show_birthday_body_book: "snd (show_birthday_body args book) = book"
  by (auto simp: show_birthday_body_def split: list.splits option.splits)

text \<open>
  Claim C8. After \<open>add_record(r)\<close> a lookup of the name of \<open>r\<close>
  finds \<open>r\<close>. On a book whose keys are unique and equal to the names of their
  records, adding a record under a name that is present keeps the list of keys as it is
  (the entry is overwritten, not duplicated), adding under a new name puts the key at the
  end, and \<open>add_record\<close>, \<open>delete\<close> and the five command
  operations all give a book with the same invariant.
\<close>

theorem add_record_find_and_invariant:
  "find (name r) (add_record r book) = Some r
   \<and> (book_inv book \<longrightarrow>
        book_inv (add_record r book)
        \<and> (name r \<in> fst ` set book \<longrightarrow> map fst (add_record r book) = map fst book)
        \<and> (name r \<notin> fst ` set book \<longrightarrow> map fst (add_record r book) = map fst book @ [name r])
        \<and> book_inv (delete n book)
        \<and> book_inv (snd (add_contact args book))
        \<and> book_inv (snd (change_contact args book))
        \<and> book_inv (snd (show_phone args book))
        \<and> book_inv (snd (add_birthday_command args book))
        \<and> book_inv (snd (show_birthday args book)))"
proof -
  have 1: "find (name r) (add_record r book) = Some r"
    by (simp add: find_def add_record_def map_of_dict_setitem)
  have 2: "name r \<in> fst ` set book \<longrightarrow> map fst (add_record r book) = map fst book"
    by (simp add: add_record_def keys_dict_setitem)
  have 3: "name r \<notin> fst ` set book \<longrightarrow> map fst (add_record r book) = map fst book @ [name r]"
    by (simp add: add_record_def keys_dict_setitem)
  have 4: "book_inv (snd (add_contact args book))" if "book_inv book"
    using that by (simp add: add_contact_def snd_input_error book_inv_add_contact_body)
  have 5: "book_inv (snd (change_contact args book))" if "book_inv book"
    using that by (simp add: change_contact_def snd_input_error book_inv_change_contact_body)
  have 6: "book_inv (snd (show_phone args book))" if "book_inv book"
    using that by (simp add: show_phone_def snd_input_error show_phone_body_book)
  have 7: "book_inv (snd (add_birthday_command args book))" if "book_inv book"
    using that by (simp add: add_birthday_command_def snd_input_error book_inv_add_birthday_body)
  have 8: "book_inv (snd (show_birthday args book))" if "book_inv book"
    using that by (simp add: show_birthday_def snd_input_error show_birthday_body_book)
  show ?thesis
    using 1 2 3 4 5 6 7 8 book_inv_add_record [of book r] book_inv_delete [of book n]
    by blast
qed

theorem add_record_find_and_invariant_witness:
  "book_inv [(''Alice'', \<lparr>name = ''Alice'', phones = [], birthday = None\<rparr>),
             (''Bob'', \<lparr>name = ''Bob'', phones = [], birthday = None\<rparr>)]
   \<and> find ''Alice'' (add_record \<lparr>name = ''Alice'', phones = [Phone ''1234567890''], birthday = None\<rparr>
        [(''Alice'', \<lparr>name = ''Alice'', phones = [], birthday = None\<rparr>),
         (''Bob'', \<lparr>name = ''Bob'', phones = [], birthday = None\<rparr>)])
      = Some \<lparr>name = ''Alice'', phones = [Phone ''1234567890''], birthday = None\<rparr>
   \<and> map fst (add_record \<lparr>name = ''Alice'', phones = [Phone ''1234567890''], birthday = None\<rparr>
        [(''Alice'', \<lparr>name = ''Alice'', phones = [], birthday = None\<rparr>),
         (''Bob'', \<lparr>name = ''Bob'', phones = [], birthday = None\<rparr>)])
      = [''Alice'', ''Bob'']
   \<and> book_inv (add_record \<lparr>name = ''Alice'', phones = [Phone ''1234567890''], birthday = None\<rparr>
        [(''Alice'', \<lparr>name = ''Alice'', phones = [], birthday = None\<rparr>),
         (''Bob'', \<lparr>name = ''Bob'', phones = [], birthday = None\<rparr>)])
   \<and> book_inv (snd (add_contact [''Carol'', ''12'']
        [(''Alice'', \<lparr>name = ''Alice'', phones = [], birthday = None\<rparr>),
         (''Bob'', \<lparr>name = ''Bob'', phones = [], birthday = None\<rparr>)]))"
proof -
  let ?book = "[(''Alice'', \<lparr>name = ''Alice'', phones = [], birthday = None\<rparr>),
                (''Bob'', \<lparr>name = ''Bob'', phones = [], birthday = None\<rparr>)]"
  let ?r = "\<lparr>name = ''Alice'', phones = [Phone ''1234567890''], birthday = None\<rparr>"
  have inv: "book_inv ?book" by (simp add: book_inv_def)
  have key: "name ?r \<in> fst ` set ?book" by simp
  from add_record_find_and_invariant [of ?r ?book "''Bob''" "[''Carol'', ''12'']"] inv key
  have "find (name ?r) (add_record ?r ?book) = Some ?r"
    and "map fst (add_record ?r ?book) = map fst ?book"
    and "book_inv (add_record ?r ?book)"
    and "book_inv (snd (add_contact [''Carol'', ''12''] ?book))"
    by blast+
  with inv show ?thesis by simp
qed

section \<open>Commands on concrete and general inputs\<close>

text \<open>
  Claim C9. The add command with the empty string as phone raises nothing: for a name that
  is absent it shows \<open>Contact added.\<close> and puts a record with no phone at the
  end of the book; for a name that is present it shows \<open>Contact updated.\<close> and
  leaves the book as it is.
\<close>

theorem add_contact_empty_phone:
  "add_contact (n # [] # rest) book =
     (case find n book of
        None \<Rightarrow> (Displayed ''Contact added.'',
                  book @ [(n, \<lparr>name = n, phones = [], birthday = None\<rparr>)])
      | Some r \<Rightarrow> (Displayed ''Contact updated.'', book))"
  by (auto simp: add_contact_def input_error_def add_contact_body_def add_record_def
      Record_init_def dict_setitem_absent find_None_iff [symmetric] split: option.splits)

theorem add_contact_empty_phone_witness:
  "add_contact [''Alice'', []] [] =
     (Displayed ''Contact added.'', [(''Alice'', \<lparr>name = ''Alice'', phones = [], birthday = None\<rparr>)])
   \<and> add_contact [''Alice'', []]
        [(''Alice'', \<lparr>name = ''Alice'', phones = [Phone ''1234567890''], birthday = None\<rparr>)] =
     (Displayed ''Contact updated.'',
      [(''Alice'', \<lparr>name = ''Alice'', phones = [Phone ''1234567890''], birthday = None\<rparr>)])"
  using add_contact_empty_phone [of "''Alice''" "[]" "[]"]
    add_contact_empty_phone [of "''Alice''" "[]"
      "[(''Alice'', \<lparr>name = ''Alice'', phones = [Phone ''1234567890''], birthday = None\<rparr>)]"]
  by (simp add: find_def)

text \<open>
  Claim C10. For a contact of the book whose birthday is unset, the show-birthday command
  shows the text \<open>None\<close> and raises nothing.
\<close>

theorem show_birthday_unset:
  "find n book = Some r \<Longrightarrow> birthday r = None \<Longrightarrow>
     show_birthday [n] book = (Displayed ''None'', book)"
  by (simp add: show_birthday_def input_error_def show_birthday_body_def)

theorem show_birthday_unset_witness:
  "find ''Alice'' [(''Alice'', \<lparr>name = ''Alice'', phones = [Phone ''1234567890''], birthday = None\<rparr>)]
     = Some \<lparr>name = ''Alice'', phones = [Phone ''1234567890''], birthday = None\<rparr>
   \<and> show_birthday [''Alice'']
        [(''Alice'', \<lparr>name = ''Alice'', phones = [Phone ''1234567890''], birthday = None\<rparr>)]
     = (Displayed ''None'',
        [(''Alice'', \<lparr>name = ''Alice'', phones = [Phone ''1234567890''], birthday = None\<rparr>)])"
proof -
  let ?r = "\<lparr>name = ''Alice'', phones = [Phone ''1234567890''], birthday = None\<rparr>"
  have f: "find ''Alice'' [(''Alice'', ?r)] = Some ?r" by (simp add: find_def)
  have b: "birthday ?r = None" by simp
  from show_birthday_unset [OF f b] f show ?thesis by simp
qed

section \<open>Validation errors and the state of the book\<close>

lemma change_contact_failure_unchanged:
  "change_contact_body args book = (Inl e, book') \<Longrightarrow> book' = book"
  by (auto simp: change_contact_body_def find_def dict_setitem_same
      split: list.splits option.splits prod.splits sum.splits dest!: edit_phone_failure)

lemma add_birthday_failure_unchanged:
  "add_birthday_body args book = (Inl e, book') \<Longrightarrow> book' = book"
  by (auto simp: add_birthday_body_def find_def dict_setitem_same
      split: list.splits option.splits prod.splits sum.splits dest!: add_birthday_failure)

lemma add_contact_existing_failure_unchanged:
  "find n book = Some r \<Longrightarrow> add_contact_body (n # phone # rest) book = (Inl e, book') \<Longrightarrow>
     book' = book"
  by (auto simp: add_contact_body_def find_def dict_setitem_same
      split: if_splits prod.splits sum.splits dest!: add_phone_failure)

lemma add_contact_absent_invalid_phone:
  assumes "find n book = None" and "phone \<noteq> []" and "\<not> phone_ok phone"
  shows "add_contact (n # phone # rest) book =
       (Returned_exception (ValueError ''Invalid phone format''),
        book @ [(n, \<lparr>name = n, phones = [], birthday = None\<rparr>)])"
proof -
  have absent: "n \<notin> fst ` set book" using assms(1) by (simp add: find_None_iff)
  have added: "add_record (Record_init n) book = book @ [(n, Record_init n)]"
    using absent by (simp add: add_record_def Record_init_def dict_setitem_absent)
  have "map_of (book @ [(n, Record_init n)]) n = Some (Record_init n)"
    using assms(1) by (simp add: find_def map_add_def)
  then have same: "dict_setitem n (Record_init n) (book @ [(n, Record_init n)])
      = book @ [(n, Record_init n)]"
    by (rule dict_setitem_same)
  have "add_contact_body (n # phone # rest) book
      = (Inl (ValueError ''Invalid phone format''), book @ [(n, Record_init n)])"
    using assms added same by (simp add: add_contact_body_def add_phone_def Phone_init_def)
  then show ?thesis by (simp add: add_contact_def input_error_def Record_init_def)
qed

text \<open>
  Claim C3 at a failing input. On the empty book, the add command with the name Alice and
  the phone 123 fails on the phone, and the book then holds an entry for Alice.
\<close>

theorem add_contact_invalid_phone_leaves_entry:
  "add_contact [''Alice'', ''123''] [] =
     (Returned_exception (ValueError ''Invalid phone format''),
      [(''Alice'', \<lparr>name = ''Alice'', phones = [], birthday = None\<rparr>)])"
  by (simp add: add_contact_def input_error_def add_contact_body_def add_record_def
      Record_init_def add_phone_def Phone_init_def phone_ok_def find_def)

section \<open>Too few arguments\<close>

lemma add_birthday_too_few_arguments:
  "length args < 2 \<Longrightarrow>
     add_birthday_command args book = (Returned ''Enter correct information.'', book)"
  by (cases args rule: list.exhaust [case_product list.exhaust])
     (auto simp: add_birthday_command_def input_error_def add_birthday_body_def split: list.splits)

lemma add_contact_too_few_arguments:
  "length args < 2 \<Longrightarrow>
     add_contact args book =
       (Returned_exception (not_enough_values ''at least 2'' (length args)), book)"
  by (auto simp: add_contact_def input_error_def add_contact_body_def not_enough_values_def
      split: list.splits)

lemma change_contact_too_few_arguments:
  "length args < 3 \<Longrightarrow>
     change_contact args book =
       (Returned_exception (not_enough_values ''at least 3'' (length args)), book)"
  by (auto simp: change_contact_def input_error_def change_contact_body_def
      not_enough_values_def split: list.splits)

text \<open>
  Claim C4 at failing inputs. With too few arguments the add, change, phone and
  show-birthday commands return the exception object of a \<open>ValueError\<close>, through the
  handler that also takes the validation errors; only add-birthday returns the message
  \<open>Enter correct information.\<close>.
\<close>

theorem too_few_arguments_value_error:
  "add_contact [''Alice''] [] =
     (Returned_exception
        (ValueError ''not enough values to unpack (expected at least 2, got 1)''), [])
   \<and> change_contact [''Alice'', ''1234567890''] [] =
     (Returned_exception
        (ValueError ''not enough values to unpack (expected at least 3, got 2)''), [])
   \<and> show_phone [] [] =
     (Returned_exception (ValueError ''not enough values to unpack (expected 1, got 0)''), [])
   \<and> show_birthday [] [] =
     (Returned_exception (ValueError ''not enough values to unpack (expected 1, got 0)''), [])
   \<and> add_birthday_command [''Alice''] [] = (Returned ''Enter correct information.'', [])"
  by code_simp

section \<open>Names that are not in the book\<close>

lemma show_phone_absent:
  "find n book = None \<Longrightarrow>
     show_phone [n] book = (Returned ''Name not found. Please, check and try again.'', book)"
  by (simp add: show_phone_def input_error_def show_phone_body_def)

lemma show_birthday_absent:
  "find n book = None \<Longrightarrow>
     show_birthday [n] book = (Raised (AttributeError NoneType_has_no_birthday), book)"
  by (simp add: show_birthday_def input_error_def show_birthday_body_def)

text \<open>
  Claim C5 at a failing input. On the empty book the phone command for Bob returns the
  message for a missing name, and the show-birthday command for Bob raises an
  \<open>AttributeError\<close> that no handler of the decorator takes.
\<close>

theorem show_birthday_absent_raises:
  "show_phone [''Bob''] [] = (Returned ''Name not found. Please, check and try again.'', [])
   \<and> show_birthday [''Bob''] [] = (Raised (AttributeError NoneType_has_no_birthday), [])"
  by (simp add: show_phone_def show_birthday_def input_error_def show_phone_body_def
      show_birthday_body_def find_def)

section \<open>Upcoming birthdays\<close>

lemma date_replace_year_valid:
  "valid_date (d\<lparr>year := y\<rparr>) \<Longrightarrow> date_replace_year d y = Inr (d\<lparr>year := y\<rparr>)"
  by (auto simp: valid_date_def date_replace_year_def)

lemma date_replace_year_Inr:
  "date_replace_year d y = Inr d' \<Longrightarrow> day d \<le> days_in_month y (month d)"
  by (auto simp: date_replace_year_def split: if_splits)

lemma anchored_this_year:
  "anchorable today b \<Longrightarrow>
     date_replace_year b (year today) = Inr (b\<lparr>year := year today\<rparr>)"
  by (simp add: anchorable_def date_replace_year_valid)

lemma anchored_occurrence:
  assumes "anchorable today b"
  shows "(if date_less (b\<lparr>year := year today\<rparr>) today
          then date_replace_year (b\<lparr>year := year today\<rparr>) (year today + 1)
          else Inr (b\<lparr>year := year today\<rparr>)) = Inr (occurrence today b)"
proof (cases "date_less (b\<lparr>year := year today\<rparr>) today")
  case True
  with assms have "valid_date ((b\<lparr>year := year today\<rparr>)\<lparr>year := year today + 1\<rparr>)"
    by (simp add: anchorable_def occurrence_def)
  then have "date_replace_year (b\<lparr>year := year today\<rparr>) (year today + 1)
      = Inr ((b\<lparr>year := year today\<rparr>)\<lparr>year := year today + 1\<rparr>)"
    by (rule date_replace_year_valid)
  with True show ?thesis by (simp add: occurrence_def)
next
  case False
  then show ?thesis by (simp add: occurrence_def)
qed

lemma upcoming_loop_spec:
  "anchorable_book today book \<Longrightarrow>
     upcoming_loop days today (map snd book) acc = Inr (acc @ upcoming_spec days today book)"
proof (induction book arbitrary: acc)
  case Nil
  then show ?case by (simp add: upcoming_spec_def)
next
  case (Cons kv book)
  from Cons.prems have rest: "anchorable_book today book"
    by (simp add: anchorable_book_def)
  have tail: "upcoming_spec days today (kv # book)
      = upcoming_spec days today [kv] @ upcoming_spec days today book"
    by (simp add: upcoming_spec_def)
  show ?case
  proof (cases "birthday (snd kv)")
    case None
    then show ?thesis using Cons.IH [OF rest] by (simp add: upcoming_spec_def)
  next
    case (Some b)
    with Cons.prems have "anchorable today (birthday_date b)"
      by (simp add: anchorable_book_def)
    note step = anchored_this_year [OF this] anchored_occurrence [OF this]
    show ?thesis
    proof (cases "in_window days today (occurrence today (birthday_date b))")
      case True
      with Some step show ?thesis
        using Cons.IH [OF rest] by (simp add: upcoming_spec_def in_window_def)
    next
      case False
      with Some step show ?thesis
        using Cons.IH [OF rest] by (auto simp: upcoming_spec_def in_window_def)
    qed
  qed
qed

lemma valid_date_other_year:
  assumes "valid_date b" and "\<not> (month b = 2 \<and> day b = 29)" and "1 \<le> y" and "y \<le> 9999"
  shows "valid_date (b\<lparr>year := y\<rparr>)"
  using assms by (auto simp: valid_date_def days_in_month_def split: if_splits)

lemma anchorable_if_not_feb29:
  assumes "valid_date b" and "\<not> (month b = 2 \<and> day b = 29)"
    and "valid_date today" and "year today < 9999"
  shows "anchorable today b"
proof -
  from assms(3,4) have y: "1 \<le> year today" "year today \<le> 9999" "1 \<le> year today + 1"
    "year today + 1 \<le> 9999" by (simp_all add: valid_date_def)
  have "valid_date (b\<lparr>year := year today\<rparr>)" "valid_date (b\<lparr>year := year today + 1\<rparr>)"
    using valid_date_other_year [OF assms(1,2)] y by blast+
  then show ?thesis by (simp add: anchorable_def occurrence_def)
qed

lemma upcoming_loop_returns:
  "upcoming_loop days today users acc = Inr res \<Longrightarrow> user \<in> set users \<Longrightarrow>
   birthday user = Some b \<Longrightarrow>
     day (birthday_date b) \<le> days_in_month (year today) (month (birthday_date b))"
proof (induction users arbitrary: acc)
  case Nil
  then show ?case by simp
next
  case (Cons u users)
  show ?case
  proof (cases "user = u")
    case True
    with Cons.prems(1,3) obtain d where "date_replace_year (birthday_date b) (year today) = Inr d"
      by (auto split: sum.splits)
    then show ?thesis by (rule date_replace_year_Inr)
  next
    case False
    with Cons.prems(2) have mem: "user \<in> set users" by simp
    from Cons.prems(1) obtain acc' where "upcoming_loop days today users acc' = Inr res"
      by (auto split: option.splits sum.splits if_splits)
    from Cons.IH [OF this mem Cons.prems(3)] show ?thesis .
  qed
qed

lemma feb29_in_common_year_raises:
  assumes "(k, r) \<in> set book" and "birthday r = Some b"
    and "month (birthday_date b) = 2" and "day (birthday_date b) = 29"
    and "\<not> is_leap (year today)"
  shows "\<exists>e. get_upcoming_birthdays days today book = Inl e"
proof (cases "get_upcoming_birthdays days today book")
  case (Inl e)
  then show ?thesis by blast
next
  case (Inr res)
  have mem: "r \<in> set (map snd book)" using assms(1) by force
  from Inr have "upcoming_loop days today (map snd book) [] = Inr res"
    by (simp add: get_upcoming_birthdays_def)
  from upcoming_loop_returns [OF this mem assms(2)] have
    "day (birthday_date b) \<le> days_in_month (year today) (month (birthday_date b))" .
  with assms(3,4,5) show ?thesis by (simp add: days_in_month_def)
qed

lemma length_str_nat: "n < 10 ^ Suc k \<Longrightarrow> length (str_nat n) \<le> Suc k"
proof (induction k arbitrary: n)
  case 0
  then show ?case by (simp add: str_nat.simps)
next
  case (Suc k)
  show ?case
  proof (cases "n < 10")
    case True
    then show ?thesis by (simp add: str_nat.simps)
  next
    case False
    from Suc.prems have "n div 10 < 10 ^ Suc k" by (simp add: less_mult_imp_div_less)
    from Suc.IH [OF this] False show ?thesis by (simp add: str_nat.simps [of n])
  qed
qed

lemma length_zfill: "length s \<le> w \<Longrightarrow> length (zfill w s) = w"
  by (simp add: zfill_def)

lemma strftime_Ymd_shape:
  assumes "valid_date d"
  shows "length (strftime_Ymd d) = 10 \<and> strftime_Ymd d ! 4 = CHR ''.''
    \<and> strftime_Ymd d ! 7 = CHR ''.''"
proof -
  from assms have r: "0 \<le> year d" "year d < 10000" "0 \<le> month d" "month d < 100"
    "0 \<le> day d" "day d < 100"
    by (auto simp: valid_date_def days_in_month_def split: if_splits)
  have "nat (year d) < 10 ^ Suc 3" "nat (month d) < 10 ^ Suc 1" "nat (day d) < 10 ^ Suc 1"
    using r by simp_all
  then have "length (str_nat (nat (year d))) \<le> 4" "length (str_nat (nat (month d))) \<le> 2"
    "length (str_nat (nat (day d))) \<le> 2"
    using length_str_nat [of "nat (year d)" 3] length_str_nat [of "nat (month d)" 1]
      length_str_nat [of "nat (day d)" 1] by linarith+
  with r have y: "length (zfill 4 (str_int (year d))) = 4"
    and m: "length (zfill 2 (str_int (month d))) = 2"
    and dd: "length (zfill 2 (str_int (day d))) = 2"
    by (simp_all add: length_zfill str_int_def)
  show ?thesis using y m dd by (simp add: strftime_Ymd_def nth_append)
qed

lemma upcoming_spec_names:
  "map congratulation_name (upcoming_spec days today book)
     = map (\<lambda>kv. name (snd kv)) (filter (\<lambda>kv. upcoming_record days today (snd kv)) book)"
  by (induction book) (auto simp: upcoming_spec_def upcoming_record_def split: option.splits)

lemma upcoming_spec_member:
  "c \<in> set (upcoming_spec days today book) \<Longrightarrow>
     \<exists>kv\<in>set book. \<exists>b. birthday (snd kv) = Some b
       \<and> congratulation_date c = strftime_Ymd (occurrence today (birthday_date b))"
proof (induction book)
  case Nil
  then show ?case by (simp add: upcoming_spec_def)
next
  case (Cons kv book)
  have split: "upcoming_spec days today (kv # book)
      = upcoming_spec days today [kv] @ upcoming_spec days today book"
    by (simp add: upcoming_spec_def)
  show ?case
  proof (cases "c \<in> set (upcoming_spec days today book)")
    case True
    from Cons.IH [OF this] show ?thesis by auto
  next
    case False
    with Cons.prems split have "c \<in> set (upcoming_spec days today [kv])" by simp
    then obtain b where "birthday (snd kv) = Some b"
      "congratulation_date c = strftime_Ymd (occurrence today (birthday_date b))"
      by (cases "birthday (snd kv)") (auto simp: upcoming_spec_def split: if_splits)
    then show ?thesis by auto
  qed
qed

lemma upcoming_spec_dates:
  assumes "anchorable_book today book" and "c \<in> set (upcoming_spec days today book)"
  shows "dotted_date (congratulation_date c)"
proof -
  from upcoming_spec_member [OF assms(2)] obtain kv b where kv: "kv \<in> set book" "birthday (snd kv) = Some b"
    and c: "congratulation_date c = strftime_Ymd (occurrence today (birthday_date b))"
    by blast
  from assms(1) kv have "anchorable today (birthday_date b)"
    by (auto simp: anchorable_book_def list_all_iff)
  then have "valid_date (occurrence today (birthday_date b))" by (simp add: anchorable_def)
  from strftime_Ymd_shape [OF this] c show ?thesis by (simp add: dotted_date_def)
qed

text \<open>
  Claim C1, as the code has it. On a book in which the month and day of every set birthday
  exist in the current year and in the year of the occurrence (which leaves out 29
  February moved to a year that is not a leap year, and a move past the year 9999), the
  listing returns, in the order of the book, one entry for each record with a set birthday
  whose occurrence is between 0 and \<open>days\<close> days after today, both ends
  included; the occurrence is the birthday's month and day in the current year, or in the
  next year when that day is strictly before today; an entry holds the name of the contact
  and the occurrence as year, month and day separated by dots.
\<close>

theorem get_upcoming_birthdays_anchorable:
  assumes "anchorable_book today book"
  shows "get_upcoming_birthdays days today book = Inr (upcoming_spec days today book)
    \<and> map congratulation_name (upcoming_spec days today book)
        = map (\<lambda>kv. name (snd kv)) (filter (\<lambda>kv. upcoming_record days today (snd kv)) book)
    \<and> list_all (\<lambda>c. dotted_date (congratulation_date c)) (upcoming_spec days today book)"
  using assms upcoming_spec_dates [OF assms]
  by (simp add: get_upcoming_birthdays_def upcoming_loop_spec upcoming_spec_names list_all_iff)

theorem get_upcoming_birthdays_anchorable_witness:
  "anchorable_book \<lparr>year = 2024, month = 3, day = 10\<rparr>
     [(''Ann'', \<lparr>name = ''Ann'', phones = [],
         birthday = Some \<lparr>birthday_value = ''10.03.1990'',
                           birthday_date = \<lparr>year = 1990, month = 3, day = 10\<rparr>\<rparr>\<rparr>),
      (''Bea'', \<lparr>name = ''Bea'', phones = [Phone ''1234567890''], birthday = None\<rparr>),
      (''Dan'', \<lparr>name = ''Dan'', phones = [],
         birthday = Some \<lparr>birthday_value = ''18.03.2000'',
                           birthday_date = \<lparr>year = 2000, month = 3, day = 18\<rparr>\<rparr>\<rparr>),
      (''Cid'', \<lparr>name = ''Cid'', phones = [],
         birthday = Some \<lparr>birthday_value = ''17.03.1985'',
                           birthday_date = \<lparr>year = 1985, month = 3, day = 17\<rparr>\<rparr>\<rparr>),
      (''Eve'', \<lparr>name = ''Eve'', phones = [],
         birthday = Some \<lparr>birthday_value = ''09.03.1999'',
                           birthday_date = \<lparr>year = 1999, month = 3, day = 9\<rparr>\<rparr>\<rparr>)]
   \<and> get_upcoming_birthdays 7 \<lparr>year = 2024, month = 3, day = 10\<rparr>
     [(''Ann'', \<lparr>name = ''Ann'', phones = [],
         birthday = Some \<lparr>birthday_value = ''10.03.1990'',
                           birthday_date = \<lparr>year = 1990, month = 3, day = 10\<rparr>\<rparr>\<rparr>),
      (''Bea'', \<lparr>name = ''Bea'', phones = [Phone ''1234567890''], birthday = None\<rparr>),
      (''Dan'', \<lparr>name = ''Dan'', phones = [],
         birthday = Some \<lparr>birthday_value = ''18.03.2000'',
                           birthday_date = \<lparr>year = 2000, month = 3, day = 18\<rparr>\<rparr>\<rparr>),
      (''Cid'', \<lparr>name = ''Cid'', phones = [],
         birthday = Some \<lparr>birthday_value = ''17.03.1985'',
                           birthday_date = \<lparr>year = 1985, month = 3, day = 17\<rparr>\<rparr>\<rparr>),
      (''Eve'', \<lparr>name = ''Eve'', phones = [],
         birthday = Some \<lparr>birthday_value = ''09.03.1999'',
                           birthday_date = \<lparr>year = 1999, month = 3, day = 9\<rparr>\<rparr>\<rparr>)]
     = Inr [\<lparr>congratulation_name = ''Ann'', congratulation_date = ''2024.03.10''\<rparr>,
            \<lparr>congratulation_name = ''Cid'', congratulation_date = ''2024.03.17''\<rparr>]"
proof -
  let ?today = "\<lparr>year = 2024, month = 3, day = 10\<rparr>"
  let ?book = "[(''Ann'', \<lparr>name = ''Ann'', phones = [],
         birthday = Some \<lparr>birthday_value = ''10.03.1990'',
                           birthday_date = \<lparr>year = 1990, month = 3, day = 10\<rparr>\<rparr>\<rparr>),
      (''Bea'', \<lparr>name = ''Bea'', phones = [Phone ''1234567890''], birthday = None\<rparr>),
      (''Dan'', \<lparr>name = ''Dan'', phones = [],
         birthday = Some \<lparr>birthday_value = ''18.03.2000'',
                           birthday_date = \<lparr>year = 2000, month = 3, day = 18\<rparr>\<rparr>\<rparr>),
      (''Cid'', \<lparr>name = ''Cid'', phones = [],
         birthday = Some \<lparr>birthday_value = ''17.03.1985'',
                           birthday_date = \<lparr>year = 1985, month = 3, day = 17\<rparr>\<rparr>\<rparr>),
      (''Eve'', \<lparr>name = ''Eve'', phones = [],
         birthday = Some \<lparr>birthday_value = ''09.03.1999'',
                           birthday_date = \<lparr>year = 1999, month = 3, day = 9\<rparr>\<rparr>\<rparr>)]"
  have h: "anchorable_book ?today ?book" by code_simp
  have v: "upcoming_spec 7 ?today ?book
      = [\<lparr>congratulation_name = ''Ann'', congratulation_date = ''2024.03.10''\<rparr>,
         \<lparr>congratulation_name = ''Cid'', congratulation_date = ''2024.03.17''\<rparr>]"
    by code_simp
  from get_upcoming_birthdays_anchorable [OF h, of 7] h v show ?thesis by simp
qed

text \<open>
  Claim C1 as stated fails: with a birthday on 29 February 2020 in the book, the listing
  on 1 March 2024 returns no list. The occurrence in the current year is before today, and
  moving it to 2025 raises.
\<close>

theorem get_upcoming_birthdays_feb29_counterexample:
  "get_upcoming_birthdays 7 \<lparr>year = 2024, month = 3, day = 1\<rparr>
     [(''Bob'', \<lparr>name = ''Bob'', phones = [],
         birthday = Some \<lparr>birthday_value = ''29.02.2020'',
                           birthday_date = \<lparr>year = 2020, month = 2, day = 29\<rparr>\<rparr>\<rparr>)]
     = Inl (ValueError ''day is out of range for month'')"
  by code_simp

text \<open>
  Claim C2 at a failing input. Adding the birthday 29.02.2020 to the contact Bob succeeds,
  and the listing on 25 February 2023 then raises a \<open>ValueError\<close> where the
  date is moved to the current year.
\<close>

theorem feb29_birthday_raises:
  "add_birthday_command [''Bob'', ''29.02.2020'']
      [(''Bob'', \<lparr>name = ''Bob'', phones = [], birthday = None\<rparr>)]
     = (Displayed ''Birthday added.'',
        [(''Bob'', \<lparr>name = ''Bob'', phones = [],
            birthday = Some \<lparr>birthday_value = ''29.02.2020'',
                              birthday_date = \<lparr>year = 2020, month = 2, day = 29\<rparr>\<rparr>\<rparr>)])
   \<and> get_upcoming_birthdays 7 \<lparr>year = 2023, month = 2, day = 25\<rparr>
        [(''Bob'', \<lparr>name = ''Bob'', phones = [],
            birthday = Some \<lparr>birthday_value = ''29.02.2020'',
                              birthday_date = \<lparr>year = 2020, month = 2, day = 29\<rparr>\<rparr>\<rparr>)]
     = Inl (ValueError ''day is out of range for month'')"
  by code_simp

end
